theory Spec2Isabelle
  imports Main
begin

section \<open>JavaScript strings and truthiness\<close>

text \<open>
  A JavaScript string is modelled as a \<open>string\<close>: the list of its code units, restricted
  to code units below 256. In that range the regular-expression class \<open>\s\<close> and the
  characters removed by \<open>String.prototype.trim\<close> are the same seven code units:
  U+0009 to U+000D, U+0020 and U+00A0.
\<close>

definition is_space :: "char \<Rightarrow> bool" where
  "is_space c = (let n = (of_char c :: nat) in (9 \<le> n \<and> n \<le> 13) \<or> n = 32 \<or> n = 160)"

text \<open>\<open>s.trim()\<close>\<close>

definition trim :: "string \<Rightarrow> string" where
  "trim s = rev (dropWhile is_space (rev (dropWhile is_space s)))"

text \<open>\<open>s.replace(/\s+/g, " ")\<close>: every maximal run of whitespace becomes one space.\<close>

function collapse_ws :: "string \<Rightarrow> string" where
  "collapse_ws [] = []"
| "collapse_ws (c # cs) =
     (if is_space c then CHR '' '' # collapse_ws (dropWhile is_space cs)
      else c # collapse_ws cs)"
  by pat_completeness auto
termination
  by (relation "measure length") (auto simp: length_dropWhile_le less_Suc_eq_le)

text \<open>
  Whether \<open>/\s+D\s+/\<close> matches at the very start of \<open>s\<close>: a non-empty run of whitespace,
  the letter D, and at least one more whitespace code unit. Since D is not whitespace the
  first \<open>\s+\<close> can only end where the run ends.
\<close>

definition sep_here :: "string \<Rightarrow> bool" where
  "sep_here s =
     (case s of
        [] \<Rightarrow> False
      | c # cs \<Rightarrow>
          is_space c \<and>
          (case dropWhile is_space cs of
             d # e # _ \<Rightarrow> d = CHR ''D'' \<and> is_space e
           | _ \<Rightarrow> False))"

text \<open>\<open>s.split(/\s+D\s+/)[0]\<close>: the text before the leftmost match, all of \<open>s\<close> without one.\<close>

fun split_head :: "string \<Rightarrow> string" where
  "split_head [] = []"
| "split_head (c # cs) = (if sep_here (c # cs) then [] else c # split_head cs)"

text \<open>\<open>s.replace(/^D\s*/, "AED ")\<close>\<close>

definition replace_marker :: "string \<Rightarrow> string" where
  "replace_marker s =
     (case s of
        [] \<Rightarrow> []
      | c # cs \<Rightarrow> if c = CHR ''D'' then ''AED '' @ dropWhile is_space cs else s)"

text \<open>\<open>s.startsWith(p)\<close> and \<open>s.includes(p)\<close>\<close>

fun starts_with :: "string \<Rightarrow> string \<Rightarrow> bool" where
  "starts_with s [] = True"
| "starts_with [] (p # ps) = False"
| "starts_with (c # cs) (p # ps) = (c = p \<and> starts_with cs ps)"

fun js_includes :: "string \<Rightarrow> string \<Rightarrow> bool" where
  "js_includes [] p = (p = [])"
| "js_includes (c # cs) p = (starts_with (c # cs) p \<or> js_includes cs p)"

text \<open>
  A value that is either \<open>undefined\<close>/\<open>null\<close> (\<open>None\<close>) or a string. Both \<open>undefined\<close> and
  the empty string are falsy; \<open>a || b\<close> is \<open>a\<close> when \<open>a\<close> is truthy and \<open>b\<close> otherwise.
\<close>

definition truthy :: "string option \<Rightarrow> bool" where
  "truthy v = (case v of None \<Rightarrow> False | Some s \<Rightarrow> s \<noteq> [])"

definition js_or :: "string option \<Rightarrow> string option \<Rightarrow> string option" where
  "js_or a b = (if truthy a then a else b)"

text \<open>\<open>a || "literal"\<close>, whose result is always a string.\<close>

definition or_str :: "string option \<Rightarrow> string \<Rightarrow> string" where
  "or_str a d = (case js_or a (Some d) of None \<Rightarrow> d | Some s \<Rightarrow> s)"

section \<open>The rendered page as the extraction callback reads it\<close>

text \<open>
  The callback of \<open>page.evaluate\<close> in \<open>scrapeProducts\<close> reads the DOM only through a fixed set
  of queries. An element is modelled by the answers to those queries.

  An \<open>anchor\<close> is a link element: \<open>href\<close> is its \<open>href\<close> property (a string, empty when the
  link has none) and \<open>attr_href\<close> is \<open>getAttribute("href")\<close> (\<open>None\<close> for \<open>null\<close>).
\<close>

record anchor =
  href :: string
  attr_href :: "string option"

text \<open>An \<open>img\<close> element: its \<open>src\<close> property and \<open>getAttribute("data-src")\<close>.\<close>

record img_el =
  src :: string
  attr_data_src :: "string option"

text \<open>
  The queries on the container of a card. Each text field is
  \<open>container.querySelector(sel)?.innerText\<close>: \<open>None\<close> when no element matches, else the
  untrimmed text of the first match.
\<close>

record container =
  q_h2 :: "string option"
  q_h3 :: "string option"
  q_h4 :: "string option"
  q_class_title :: "string option"
  q_class_name :: "string option"
  q_testid_price :: "string option"
  q_class_price :: "string option"
  q_class_Price :: "string option"
  q_img :: "img_el option"

text \<open>
  A card is either a link itself (\<open>card.matches("a")\<close>), or another element, given with
  \<open>card.querySelector('a[href*="/product/"]')\<close>, the queries on \<open>card.closest("a")\<close> when
  there is such an ancestor, and the queries on the card itself.
\<close>

datatype card =
  AnchorCard anchor container
| ElementCard "anchor option" "container option" container

text \<open>
  A rendered page: the result of \<open>document.querySelectorAll\<close> for each of the four
  selectors of the callback, in the callback's order.
\<close>

record page =
  sel_testid_product_card :: "card list"
  sel_class_product_card :: "card list"
  sel_class_ProductCard :: "card list"
  sel_product_href :: "card list"

record product =
  id_no :: nat
  title :: string
  price :: string
  image :: string
  url :: string

section \<open>The extraction callback of scrapeProducts\<close>

text \<open>The selector loop: the first selector with at least one match gives the cards.\<close>

fun first_nonempty :: "card list list \<Rightarrow> card list" where
  "first_nonempty [] = []"
| "first_nonempty (els # rest) = (if length els > 0 then els else first_nonempty rest)"

definition discover :: "page \<Rightarrow> card list" where
  "discover pg =
     first_nonempty
       [sel_testid_product_card pg, sel_class_product_card pg,
        sel_class_ProductCard pg, sel_product_href pg]"

text \<open>\<open>card.matches("a") ? card : card.querySelector('a[href*="/product/"]')\<close>\<close>

fun linkEl_of :: "card \<Rightarrow> anchor option" where
  "linkEl_of (AnchorCard a c) = Some a"
| "linkEl_of (ElementCard l up c) = l"

text \<open>\<open>linkEl.href || linkEl.getAttribute("href") || ""\<close>\<close>

definition url_of :: "anchor \<Rightarrow> string" where
  "url_of a = or_str (js_or (Some (href a)) (attr_href a)) []"

text \<open>\<open>card.matches("a") ? card : card.closest("a") || card\<close>\<close>

fun container_of :: "card \<Rightarrow> container" where
  "container_of (AnchorCard a c) = c"
| "container_of (ElementCard l up c) = (case up of Some a \<Rightarrow> a | None \<Rightarrow> c)"

text \<open>The title chain: h2, h3, h4, a class containing "title", a class containing "name".\<close>

definition title_of :: "container \<Rightarrow> string option" where
  "title_of c =
     js_or (js_or (js_or (js_or
       (map_option trim (q_h2 c))
       (map_option trim (q_h3 c)))
       (map_option trim (q_h4 c)))
       (map_option trim (q_class_title c)))
       (map_option trim (q_class_name c))"

text \<open>
  \<open>priceEl?.innerText\<close>: an element is an object and so always truthy; the first lookup
  that finds an element decides, whatever its text.
\<close>

definition priceEl_text :: "container \<Rightarrow> string option" where
  "priceEl_text c =
     (case q_testid_price c of
        Some t \<Rightarrow> Some t
      | None \<Rightarrow> (case q_class_price c of Some t \<Rightarrow> Some t | None \<Rightarrow> q_class_Price c))"

text \<open>
  The two price lines of the callback:
  \<open>let price = priceEl?.innerText?.replace(/\s+/g, " ").trim() || "";\<close>
  \<open>price = price.split(/\s+D\s+/)[0]?.replace(/^D\s*/, "AED ") || price;\<close>
\<close>

definition collapsed_price :: "string option \<Rightarrow> string" where
  "collapsed_price t = or_str (map_option (\<lambda>x. trim (collapse_ws x)) t) []"

definition normalize_price :: "string \<Rightarrow> string" where
  "normalize_price p = or_str (Some (replace_marker (split_head p))) p"

definition price_of :: "container \<Rightarrow> string" where
  "price_of c = normalize_price (collapsed_price (priceEl_text c))"

text \<open>
  \<open>let image = img?.src || img?.getAttribute("data-src") || "";\<close>
  \<open>if (image.startsWith("//")) image = "https:" + image;\<close>
\<close>

definition image_of :: "container \<Rightarrow> string" where
  "image_of c =
     (let i = (case q_img c of
                 None \<Rightarrow> []
               | Some g \<Rightarrow> or_str (js_or (Some (src g)) (attr_data_src g)) [])
      in if starts_with i ''//'' then ''https:'' @ i else i)"

text \<open>
  One iteration of \<open>for (const card of cards)\<close>, on the pair of \<open>results\<close> and \<open>seen\<close>.
  The URL is added to \<open>seen\<close> before the title and the price are looked at.
\<close>

definition visit :: "card \<Rightarrow> product list \<times> string set \<Rightarrow> product list \<times> string set" where
  "visit cd st =
     (case st of (results, seen) \<Rightarrow>
        (case linkEl_of cd of
           None \<Rightarrow> (results, seen)
         | Some linkEl \<Rightarrow>
             (let u = url_of linkEl in
              if \<not> js_includes u ''/product/'' \<or> u \<in> seen then (results, seen)
              else
                (let c = container_of cd; t = title_of c; p = price_of c in
                 (if truthy t \<or> p \<noteq> []
                  then results @
                    [\<lparr>id_no = length results + 1,
                      title = or_str t ''N/A'',
                      price = or_str (Some p) ''N/A'',
                      image = or_str (Some (image_of c)) [],
                      url = u\<rparr>]
                  else results,
                  insert u seen)))))"

definition evaluate_products :: "page \<Rightarrow> product list" where
  "evaluate_products pg = fst (fold visit (discover pg) ([], {}))"

section \<open>scrapeProducts\<close>

text \<open>
  Everything \<open>scrapeProducts\<close> does before the extraction callback (launching the browser,
  navigation, the wait for three product links, scrolling) belongs to the environment: it
  either throws an error, of which only the message is used, or leaves a rendered page.
  The \<open>catch\<close> block rethrows and \<open>finally\<close> closes the browser on both paths.
\<close>

datatype rendering = RenderError string | Rendered page

definition scrapeProducts :: "rendering \<Rightarrow> string + product list" where
  "scrapeProducts r =
     (case r of
        RenderError msg \<Rightarrow> Inl msg
      | Rendered pg \<Rightarrow> Inr (evaluate_products pg))"

section \<open>The cache and the product endpoints\<close>

definition CACHE_DURATION :: int where
  "CACHE_DURATION = 5 * 60 * 1000"

text \<open>
  The module variables \<open>cachedProducts\<close> and \<open>lastScrapeTime\<close> (\<open>None\<close> for \<open>null\<close>), with two
  counters that the code does not keep and that only record what it does: \<open>scrapes\<close> counts
  the calls of \<open>scrapeProducts\<close> made so far, \<open>in_flight\<close> those that have neither returned
  nor thrown yet (each holds one browser).
\<close>

record server =
  cachedProducts :: "product list"
  lastScrapeTime :: "int option"
  scrapes :: nat
  in_flight :: nat

text \<open>
  The JSON bodies of the two product endpoints: \<open>{success: true, count, cached, products}\<close>,
  where \<open>cached\<close> is \<open>None\<close> when the object has no such field, and
  \<open>{success: false, error}\<close>. \<open>res.json\<close> without \<open>res.status\<close> answers 200.
\<close>

datatype body =
  ProductsJson nat "bool option" "product list"
| ErrorJson string

record response =
  status :: nat
  body :: body

text \<open>
  A handler is an \<open>async\<close> function: it runs without interruption up to
  \<open>await scrapeProducts()\<close>, is suspended there while other requests are served, and runs
  without interruption again once the scrape has returned or thrown. A suspended handler
  keeps its local variables: \<open>now\<close> for \<open>GET /api/products\<close>, none for the refresh.
\<close>

datatype handler = ProductsHandler int | RefreshHandler

datatype arrival = Responded response | Suspended handler

text \<open>
  The test of \<open>GET /api/products\<close>:
  \<open>cachedProducts.length > 0 && lastScrapeTime && (now - lastScrapeTime < CACHE_DURATION)\<close>.
  As a number, \<open>lastScrapeTime\<close> is truthy when it is not 0.
\<close>

definition cache_valid :: "int \<Rightarrow> server \<Rightarrow> bool" where
  "cache_valid now s =
     (length (cachedProducts s) > 0 \<and>
      (case lastScrapeTime s of
         None \<Rightarrow> False
       | Some t \<Rightarrow> t \<noteq> 0 \<and> now - t < CACHE_DURATION))"

text \<open>\<open>GET /api/products\<close> up to its \<open>await\<close>; \<open>now\<close> is the value of \<open>Date.now()\<close> on arrival.\<close>

definition products_arrive :: "int \<Rightarrow> server \<Rightarrow> arrival \<times> server" where
  "products_arrive now s =
     (if cache_valid now s
      then (Responded \<lparr>status = 200,
              body = ProductsJson (length (cachedProducts s)) (Some True) (cachedProducts s)\<rparr>, s)
      else (Suspended (ProductsHandler now),
            s\<lparr>scrapes := scrapes s + 1, in_flight := in_flight s + 1\<rparr>))"

text \<open>\<open>GET /api/products/refresh\<close> up to its \<open>await\<close>.\<close>

definition refresh_arrive :: "server \<Rightarrow> arrival \<times> server" where
  "refresh_arrive s =
     (Suspended RefreshHandler, s\<lparr>scrapes := scrapes s + 1, in_flight := in_flight s + 1\<rparr>)"

text \<open>
  A suspended handler from its \<open>await\<close> on: \<open>outcome\<close> is what \<open>scrapeProducts\<close> returned
  (\<open>Inr\<close>) or the message of what it threw (\<open>Inl\<close>), \<open>t\<close> is the value of \<open>Date.now()\<close> at that
  moment. When the scrape throws, the assignment to \<open>cachedProducts\<close> is not executed and
  the \<open>catch\<close> block answers 500.
\<close>

definition resume :: "handler \<Rightarrow> string + product list \<Rightarrow> int \<Rightarrow> server \<Rightarrow> response \<times> server" where
  "resume h outcome t s =
     (let s1 = s\<lparr>in_flight := in_flight s - 1\<rparr> in
      case outcome of
        Inl msg \<Rightarrow> (\<lparr>status = 500, body = ErrorJson msg\<rparr>, s1)
      | Inr ps \<Rightarrow>
          (case h of
             ProductsHandler now \<Rightarrow>
               (let s2 = s1\<lparr>cachedProducts := ps, lastScrapeTime := Some now\<rparr> in
                (\<lparr>status = 200,
                  body = ProductsJson (length (cachedProducts s2)) (Some False) (cachedProducts s2)\<rparr>,
                 s2))
           | RefreshHandler \<Rightarrow>
               (let s2 = s1\<lparr>cachedProducts := ps, lastScrapeTime := Some t\<rparr> in
                (\<lparr>status = 200,
                  body = ProductsJson (length (cachedProducts s2)) None (cachedProducts s2)\<rparr>,
                 s2))))"

text \<open>
  A request served with no other request in between: the handler arrives, and if it is
  suspended its scrape renders \<open>r\<close> and settles at time \<open>t\<close> before anything else happens.
\<close>

definition serve :: "arrival \<times> server \<Rightarrow> rendering \<Rightarrow> int \<Rightarrow> response \<times> server" where
  "serve a r t =
     (case a of
        (Responded resp, s) \<Rightarrow> (resp, s)
      | (Suspended h, s) \<Rightarrow> resume h (scrapeProducts r) t s)"

definition get_products :: "int \<Rightarrow> rendering \<Rightarrow> int \<Rightarrow> server \<Rightarrow> response \<times> server" where
  "get_products now r t s = serve (products_arrive now s) r t"

definition get_refresh :: "rendering \<Rightarrow> int \<Rightarrow> server \<Rightarrow> response \<times> server" where
  "get_refresh r t s = serve (refresh_arrive s) r t"

text \<open>The state of the module when the process starts.\<close>

definition initial :: server where
  "initial = \<lparr>cachedProducts = [], lastScrapeTime = None, scrapes = 0, in_flight = 0\<rparr>"

section \<open>The image proxy\<close>

text \<open>
  What \<open>fetch\<close> gives for a URL: it throws, or it resolves to a response of which the
  handler reads the status, the \<open>content-type\<close> header (\<open>None\<close> for \<open>null\<close>) and the body
  (\<open>None\<close> when \<open>arrayBuffer()\<close> throws). \<open>response.ok\<close> holds for a status from 200 to 299.
\<close>

record upstream =
  up_status :: nat
  up_content_type :: "string option"
  up_bytes :: "nat list option"

datatype fetched = FetchThrows | FetchResponse upstream

definition ok :: "upstream \<Rightarrow> bool" where
  "ok up = (200 \<le> up_status up \<and> up_status up \<le> 299)"

text \<open>
  The answers of \<open>GET /api/image-proxy\<close>: a status with \<open>{error: message}\<close>, or the image
  bytes with their \<open>Content-Type\<close> and \<open>Cache-Control\<close> headers.
\<close>

datatype proxy_response =
  ProxyError nat string
| ProxyImage string string "nat list"

text \<open>
  The handler, with \<open>req.query.url\<close> as a string or \<open>undefined\<close>. The second component lists
  the URLs passed to \<open>fetch\<close>, in order.
\<close>

definition image_proxy :: "string option \<Rightarrow> (string \<Rightarrow> fetched) \<Rightarrow> proxy_response \<times> string list" where
  "image_proxy imageUrl fetch =
     (if \<not> truthy imageUrl then (ProxyError 400 ''Missing url parameter'', [])
      else
        (case imageUrl of
           None \<Rightarrow> (ProxyError 400 ''Missing url parameter'', [])
         | Some u \<Rightarrow>
             (case fetch u of
                FetchThrows \<Rightarrow> (ProxyError 500 ''Image proxy error'', [u])
              | FetchResponse up \<Rightarrow>
                  if \<not> ok up then (ProxyError (up_status up) ''Failed to fetch image'', [u])
                  else
                    (case up_bytes up of
                       None \<Rightarrow> (ProxyError 500 ''Image proxy error'', [u])
                     | Some bytes \<Rightarrow>
                         (ProxyImage (or_str (up_content_type up) ''image/jpeg'')
                            ''public, max-age=86400'' bytes, [u])))))"

section \<open>Notions used in the statements\<close>

text \<open>
  The URL with which an iteration of the card loop gets past the test on the link:
  \<open>None\<close> when the card has no link or its URL does not contain \<open>/product/\<close>.
\<close>

definition resolved :: "card \<Rightarrow> string option" where
  "resolved cd =
     (case linkEl_of cd of
        None \<Rightarrow> None
      | Some linkEl \<Rightarrow>
          if js_includes (url_of linkEl) ''/product/'' then Some (url_of linkEl) else None)"

text \<open>The test \<open>title || price\<close> of the loop, and the record pushed when it holds.\<close>

definition emits :: "card \<Rightarrow> bool" where
  "emits cd = (truthy (title_of (container_of cd)) \<or> price_of (container_of cd) \<noteq> [])"

definition entry :: "card \<Rightarrow> nat \<Rightarrow> string \<Rightarrow> product" where
  "entry cd k u =
     \<lparr>id_no = k,
      title = or_str (title_of (container_of cd)) ''N/A'',
      price = or_str (Some (price_of (container_of cd))) ''N/A'',
      image = image_of (container_of cd),
      url = u\<rparr>"

text \<open>What the loop maintains: the URLs of \<open>results\<close> are distinct and all in \<open>seen\<close>.\<close>

definition sound :: "product list \<times> string set \<Rightarrow> bool" where
  "sound st = (distinct (map url (fst st)) \<and> url ` set (fst st) \<subseteq> snd st)"

text \<open>
  A text of whitespace only; the single space that a run of whitespace collapses to (nothing
  for an empty run); and a numeric amount: digits, commas and full stops, at least one.
\<close>

definition blank_text :: "string \<Rightarrow> bool" where
  "blank_text s = list_all is_space s"

definition gap :: "string \<Rightarrow> string" where
  "gap ws = (if ws = [] then [] else '' '')"

definition amount_char :: "char \<Rightarrow> bool" where
  "amount_char c = (let n = (of_char c :: nat) in (48 \<le> n \<and> n \<le> 57) \<or> n = 44 \<or> n = 46)"

definition numeric :: "string \<Rightarrow> bool" where
  "numeric a = (a \<noteq> [] \<and> list_all amount_char a)"

section \<open>Sample inputs\<close>

text \<open>A container on which every query comes back empty.\<close>

definition blank :: container where
  "blank =
     \<lparr>q_h2 = None, q_h3 = None, q_h4 = None, q_class_title = None, q_class_name = None,
      q_testid_price = None, q_class_price = None, q_class_Price = None, q_img = None\<rparr>"

text \<open>A product link that wraps a picture and nothing else.\<close>

definition picture_link :: "string \<Rightarrow> card" where
  "picture_link u =
     AnchorCard \<lparr>href = u, attr_href = Some u\<rparr>
       (blank\<lparr>q_img := Some \<lparr>src = ''//cdn.example/p.jpg'', attr_data_src = None\<rparr>\<rparr>)"

text \<open>
  A page that passes the wait for three product links and on which only the last selector
  matches: three picture links.
\<close>

definition pictures_only :: page where
  "pictures_only =
     \<lparr>sel_testid_product_card = [], sel_class_product_card = [], sel_class_ProductCard = [],
      sel_product_href =
        [picture_link ''https://uae.sharafdg.com/product/a'',
         picture_link ''https://uae.sharafdg.com/product/b'',
         picture_link ''https://uae.sharafdg.com/product/c'']\<rparr>"

definition kettle :: product where
  "kettle =
     \<lparr>id_no = 1, title = ''Kettle'', price = ''AED 99'', image = [],
      url = ''https://uae.sharafdg.com/product/kettle''\<rparr>"

text \<open>A server whose cache holds one record, stamped 1700000000000.\<close>

definition stocked :: server where
  "stocked =
     \<lparr>cachedProducts = [kettle], lastScrapeTime = Some 1700000000000, scrapes = 1,
      in_flight = 0\<rparr>"

text \<open>Links with a heading only, and with a price element only.\<close>

definition titled_link :: "string \<Rightarrow> string \<Rightarrow> card" where
  "titled_link u t = AnchorCard \<lparr>href = u, attr_href = Some u\<rparr> (blank\<lparr>q_h2 := Some t\<rparr>)"

definition priced_link :: "string \<Rightarrow> string \<Rightarrow> card" where
  "priced_link u p = AnchorCard \<lparr>href = u, attr_href = Some u\<rparr> (blank\<lparr>q_class_price := Some p\<rparr>)"

text \<open>
  A link with two price elements and no heading: the one found by the \<open>data-testid\<close>
  lookup is empty, the one found by the lookup of a class containing "price" holds a price.
\<close>

definition shadowed_price_link :: "string \<Rightarrow> card" where
  "shadowed_price_link u =
     AnchorCard \<lparr>href = u, attr_href = Some u\<rparr>
       (blank\<lparr>q_testid_price := Some [], q_class_price := Some ''D 5''\<rparr>)"

definition kettle_url :: string where
  "kettle_url = ''https://uae.sharafdg.com/product/kettle''"

definition toaster_url :: string where
  "toaster_url = ''https://uae.sharafdg.com/product/toaster''"

text \<open>
  Two pages with three product links, two of them to the same product: on the first the
  picture link comes before the link with the heading, on the second after it.
\<close>

definition picture_first :: page where
  "picture_first =
     \<lparr>sel_testid_product_card = [], sel_class_product_card = [], sel_class_ProductCard = [],
      sel_product_href =
        [picture_link kettle_url, titled_link kettle_url ''Kettle'',
         titled_link toaster_url ''Toaster'']\<rparr>"

definition title_first :: page where
  "title_first =
     \<lparr>sel_testid_product_card = [], sel_class_product_card = [], sel_class_ProductCard = [],
      sel_product_href =
        [titled_link kettle_url ''Kettle'', picture_link kettle_url,
         titled_link toaster_url ''Toaster'']\<rparr>"

text \<open>Two behaviours of \<open>fetch\<close>: the network is down, or the image is not there.\<close>

definition offline :: "string \<Rightarrow> fetched" where
  "offline u = FetchThrows"

definition gone :: "string \<Rightarrow> fetched" where
  "gone u = FetchResponse \<lparr>up_status = 404, up_content_type = None, up_bytes = None\<rparr>"

section \<open>The card loop\<close>

lemma or_str_Some_Nil [simp]: "or_str (Some s) [] = s"
  by (simp add: or_str_def js_or_def truthy_def)

lemma or_str_Some: "s \<noteq> [] \<Longrightarrow> or_str (Some s) d = s"
  by (simp add: or_str_def js_or_def truthy_def)

lemma truthy_or_str: "truthy t \<Longrightarrow> \<exists>s. t = Some s \<and> s \<noteq> [] \<and> or_str t d = s"
  by (cases t) (simp_all add: truthy_def or_str_def js_or_def)

lemma falsy_or_str: "\<not> truthy t \<Longrightarrow> or_str t d = d"
  by (cases t) (simp_all add: truthy_def or_str_def js_or_def)

lemma visit_cases:
  "visit cd (rs, seen) =
     (case resolved cd of
        None \<Rightarrow> (rs, seen)
      | Some u \<Rightarrow>
          if u \<in> seen then (rs, seen)
          else (if emits cd then rs @ [entry cd (length rs + 1) u] else rs, insert u seen))"
  by (auto simp: visit_def resolved_def emits_def entry_def Let_def split: option.splits)

lemma visit_sound: "sound st \<Longrightarrow> sound (visit cd st)"
  by (cases st) (auto simp: visit_cases sound_def entry_def split: option.splits)

lemma fold_visit_sound: "sound st \<Longrightarrow> sound (fold visit cs st)"
  by (induction cs arbitrary: st) (simp_all add: visit_sound)

lemma evaluate_products_distinct: "distinct (map url (evaluate_products pg))"
proof -
  have "sound (fold visit (discover pg) ([], {}))"
    by (rule fold_visit_sound) (simp add: sound_def)
  then show ?thesis
    by (simp add: evaluate_products_def sound_def)
qed

lemma visit_seen_mono: "u \<in> snd st \<Longrightarrow> u \<in> snd (visit cd st)"
  by (cases st) (auto simp: visit_cases split: option.splits)

lemma visit_seen_same:
  "u \<in> snd st \<Longrightarrow>
   filter (\<lambda>r. url r = u) (fst (visit cd st)) = filter (\<lambda>r. url r = u) (fst st)"
  by (cases st) (auto simp: visit_cases entry_def split: option.splits)

lemma fold_visit_seen_same:
  "u \<in> snd st \<Longrightarrow>
   filter (\<lambda>r. url r = u) (fst (fold visit cs st)) = filter (\<lambda>r. url r = u) (fst st)"
proof (induction cs arbitrary: st)
  case Nil
  then show ?case by simp
next
  case (Cons c cs)
  have "u \<in> snd (visit c st)"
    using Cons.prems by (rule visit_seen_mono)
  then show ?case
    using Cons.IH [of "visit c st"] visit_seen_same [OF Cons.prems, of c] by simp
qed

lemma visit_other:
  "resolved cd \<noteq> Some u \<Longrightarrow>
   filter (\<lambda>r. url r = u) (fst (visit cd st)) = filter (\<lambda>r. url r = u) (fst st) \<and>
   (u \<in> snd (visit cd st) \<longleftrightarrow> u \<in> snd st)"
  by (cases st) (auto simp: visit_cases entry_def split: option.splits)

lemma fold_visit_other:
  "\<forall>c\<in>set cs. resolved c \<noteq> Some u \<Longrightarrow>
   filter (\<lambda>r. url r = u) (fst (fold visit cs st)) = filter (\<lambda>r. url r = u) (fst st) \<and>
   (u \<in> snd (fold visit cs st) \<longleftrightarrow> u \<in> snd st)"
proof (induction cs arbitrary: st)
  case Nil
  then show ?case by simp
next
  case (Cons c cs)
  then show ?case
    using visit_other [of c u st] by simp
qed

lemma first_card_decides:
  assumes pre: "\<forall>c'\<in>set pre. resolved c' \<noteq> Some u"
    and c: "resolved c = Some u"
    and fresh: "u \<notin> snd st" "filter (\<lambda>r. url r = u) (fst st) = []"
  shows "filter (\<lambda>r. url r = u) (fst (fold visit (pre @ c # post) st)) =
     (if emits c then [entry c (length (fst (fold visit pre st)) + 1) u] else [])"
proof -
  obtain rs seen where st1: "fold visit pre st = (rs, seen)"
    by (cases "fold visit pre st")
  have a: "filter (\<lambda>r. url r = u) rs = []" "u \<notin> seen"
    using fold_visit_other [OF pre, of st] fresh st1 by simp_all
  have v: "visit c (rs, seen) =
      (if emits c then rs @ [entry c (length rs + 1) u] else rs, insert u seen)"
    using c a by (simp add: visit_cases)
  have "filter (\<lambda>r. url r = u) (fst (fold visit post (visit c (rs, seen)))) =
      filter (\<lambda>r. url r = u) (fst (visit c (rs, seen)))"
    by (rule fold_visit_seen_same) (simp add: v)
  then show ?thesis
    using a by (simp add: st1 v entry_def)
qed

lemma resolved_samples:
  "resolved (picture_link kettle_url) = Some kettle_url"
  "resolved (titled_link kettle_url ''Kettle'') = Some kettle_url"
  "resolved (priced_link kettle_url ''D 99  D 120'') = Some kettle_url"
  by code_simp+

text \<open>
  C4, as amended. In every result of the extraction the \<open>url\<close> values are pairwise
  distinct. For a URL \<open>u\<close>, let \<open>c\<close> be the first discovered card, in document order, that
  resolves to \<open>u\<close>: if \<open>c\<close> yields a title or a price, exactly one record carries \<open>u\<close>, and
  it is the record of \<open>c\<close>; if \<open>c\<close> yields neither, no record carries \<open>u\<close>, whatever the
  later cards with the same URL hold.
\<close>

theorem dedup_by_url:
  assumes "discover pg = pre @ c # post"
    and "\<forall>c'\<in>set pre. resolved c' \<noteq> Some u"
    and "resolved c = Some u"
  shows "distinct (map url (evaluate_products pg)) \<and>
     filter (\<lambda>r. url r = u) (evaluate_products pg) =
       (if emits c then [entry c (length (fst (fold visit pre ([], {}))) + 1) u] else [])"
proof -
  have "filter (\<lambda>r. url r = u) (evaluate_products pg) =
      (if emits c then [entry c (length (fst (fold visit pre ([], {}))) + 1) u] else [])"
    using assms first_card_decides [of pre u c "([], {})" post]
    by (simp add: evaluate_products_def)
  then show ?thesis
    using evaluate_products_distinct [of pg] by simp
qed

lemma sample_fields:
  "title_of (container_of (picture_link kettle_url)) = None"
  "price_of (container_of (picture_link kettle_url)) = []"
  "title_of (container_of (titled_link kettle_url ''Kettle'')) = Some ''Kettle''"
  "price_of (container_of (titled_link kettle_url ''Kettle'')) = []"
  "image_of (container_of (titled_link kettle_url ''Kettle'')) = []"
  "title_of (container_of (priced_link kettle_url ''D 99  D 120'')) = None"
  "price_of (container_of (priced_link kettle_url ''D 99  D 120'')) = ''AED 99''"
  "image_of (container_of (priced_link kettle_url ''D 99  D 120'')) = []"
  by code_simp+

lemma toaster_samples:
  "resolved (titled_link toaster_url ''Toaster'') = Some toaster_url"
  "emits (titled_link toaster_url ''Toaster'')"
  "entry (titled_link toaster_url ''Toaster'') 2 toaster_url =
     \<lparr>id_no = 2, title = ''Toaster'', price = ''N/A'', image = [], url = toaster_url\<rparr>"
  "length (fst (fold visit [titled_link kettle_url ''Kettle'', picture_link kettle_url] ([], {}))) = 1"
  "kettle_url \<noteq> toaster_url"
  by code_simp+

theorem dedup_by_url_witness:
  "filter (\<lambda>r. url r = kettle_url) (evaluate_products title_first) =
     [\<lparr>id_no = 1, title = ''Kettle'', price = ''N/A'', image = [], url = kettle_url\<rparr>] \<and>
   filter (\<lambda>r. url r = toaster_url) (evaluate_products title_first) =
     [\<lparr>id_no = 2, title = ''Toaster'', price = ''N/A'', image = [], url = toaster_url\<rparr>] \<and>
   filter (\<lambda>r. url r = kettle_url) (evaluate_products picture_first) = []"
proof -
  have a: "discover title_first =
      [] @ titled_link kettle_url ''Kettle'' #
        [picture_link kettle_url, titled_link toaster_url ''Toaster'']"
    by (simp add: title_first_def discover_def)
  have t: "discover title_first =
      [titled_link kettle_url ''Kettle'', picture_link kettle_url] @
        titled_link toaster_url ''Toaster'' # []"
    by (simp add: title_first_def discover_def)
  have earlier:
    "\<forall>c'\<in>set [titled_link kettle_url ''Kettle'', picture_link kettle_url].
       resolved c' \<noteq> Some toaster_url"
    by (simp add: resolved_samples toaster_samples(5))
  have b: "discover picture_first =
      [] @ picture_link kettle_url #
        [titled_link kettle_url ''Kettle'', titled_link toaster_url ''Toaster'']"
    by (simp add: picture_first_def discover_def)
  have e: "emits (titled_link kettle_url ''Kettle'')" "\<not> emits (picture_link kettle_url)"
    by (simp_all add: emits_def sample_fields truthy_def)
  have "filter (\<lambda>r. url r = toaster_url) (evaluate_products title_first) =
      (if emits (titled_link toaster_url ''Toaster'')
       then [entry (titled_link toaster_url ''Toaster'')
               (length (fst (fold visit
                  [titled_link kettle_url ''Kettle'', picture_link kettle_url] ([], {}))) + 1)
               toaster_url]
       else [])"
    using dedup_by_url [OF t earlier toaster_samples(1)] by (rule conjunct2)
  then have toaster:
    "filter (\<lambda>r. url r = toaster_url) (evaluate_products title_first) =
       [\<lparr>id_no = 2, title = ''Toaster'', price = ''N/A'', image = [], url = toaster_url\<rparr>]"
    by (simp only: toaster_samples(2,4) if_True one_add_one toaster_samples(3))
  show ?thesis
    using dedup_by_url [OF a _ resolved_samples(2)] dedup_by_url [OF b _ resolved_samples(1)]
      e toaster
    by (simp add: entry_def sample_fields or_str_def js_or_def truthy_def)
qed

text \<open>
  C4 as stated fails when the first card of a URL has neither title nor price: the loop adds
  the URL to \<open>seen\<close> before it looks at the fields. On \<open>picture_first\<close> two cards resolve
  to the kettle's URL and no record carries it.
\<close>

theorem first_card_without_fields:
  "map resolved (discover picture_first) = [Some kettle_url, Some kettle_url, Some toaster_url] \<and>
   evaluate_products picture_first =
     [\<lparr>id_no = 1, title = ''Toaster'', price = ''N/A'', image = [], url = toaster_url\<rparr>]"
  by code_simp

section \<open>Blank texts, titles and prices\<close>

lemma space_is_space: "is_space CHR '' ''"
  by (simp add: is_space_def)

lemma D_solid: "\<not> is_space CHR ''D''"
  by (simp add: is_space_def)

lemma trim_Nil_iff: "trim s = [] \<longleftrightarrow> blank_text s"
proof
  assume "trim s = []"
  then have "\<forall>c\<in>set (dropWhile is_space s). is_space c"
    by (simp add: trim_def)
  then have "dropWhile is_space s = []"
    using hd_dropWhile [of is_space s] by (cases "dropWhile is_space s") auto
  then show "blank_text s"
    by (simp add: blank_text_def list_all_iff)
next
  assume "blank_text s"
  then have d: "dropWhile is_space s = []"
    by (simp add: blank_text_def list_all_iff)
  show "trim s = []"
    unfolding trim_def d by simp
qed

lemma blank_dropWhile: "blank_text (dropWhile is_space s) \<longleftrightarrow> blank_text s"
  by (induction s) (simp_all add: blank_text_def)

lemma blank_collapse_ws: "blank_text (collapse_ws s) \<longleftrightarrow> blank_text s"
proof (induction s rule: collapse_ws.induct)
  case 1
  then show ?case by simp
next
  case (2 c cs)
  show ?case
  proof (cases "is_space c")
    case True
    then show ?thesis
      using 2 blank_dropWhile [of cs] by (simp add: blank_text_def space_is_space)
  next
    case False
    then show ?thesis by (simp add: blank_text_def)
  qed
qed

lemma normalize_price_Nil_iff: "normalize_price p = [] \<longleftrightarrow> p = []"
  by (cases p) (auto simp: normalize_price_def or_str_def js_or_def truthy_def replace_marker_def)

lemma collapsed_price_Nil_iff:
  "collapsed_price t \<noteq> [] \<longleftrightarrow> (\<exists>s. t = Some s \<and> \<not> blank_text s)"
  by (cases t)
    (simp_all add: collapsed_price_def or_str_def js_or_def truthy_def trim_Nil_iff
      blank_collapse_ws)

lemma price_of_Nil_iff:
  "price_of c \<noteq> [] \<longleftrightarrow> (\<exists>s. priceEl_text c = Some s \<and> \<not> blank_text s)"
  by (simp add: price_of_def normalize_price_Nil_iff collapsed_price_Nil_iff)

lemma truthy_trimmed: "truthy (map_option trim x) \<longleftrightarrow> (\<exists>s. x = Some s \<and> \<not> blank_text s)"
  by (cases x) (simp_all add: truthy_def trim_Nil_iff)

lemma truthy_js_or: "truthy (js_or a b) \<longleftrightarrow> truthy a \<or> truthy b"
  by (simp add: js_or_def)

lemma truthy_title_iff:
  "truthy (title_of c) \<longleftrightarrow>
     (\<exists>s. Some s \<in> set [q_h2 c, q_h3 c, q_h4 c, q_class_title c, q_class_name c] \<and>
          \<not> blank_text s)"
  by (auto simp: title_of_def truthy_js_or truthy_trimmed)

text \<open>
  C5, as amended. For a card that the loop processes (it resolves to a URL \<open>u\<close> that is not
  in \<open>seen\<close>), with \<open>c\<close> its container: the title chain yields a match exactly when one of
  its five lookups finds a text that is not blank; the price lookup yields a match exactly
  when the first price element found, in the order of the three lookups, has a text that is
  not blank, whatever the later lookups would find. With neither match, no record is pushed;
  with a title only, the record pushed has the price \<open>N/A\<close>; with a price only, it has the
  title \<open>N/A\<close>.
\<close>

theorem sentinel_rule:
  assumes "resolved cd = Some u" and "u \<notin> seen" and "c = container_of cd"
  shows
    "(truthy (title_of c) \<longleftrightarrow>
        (\<exists>s. Some s \<in> set [q_h2 c, q_h3 c, q_h4 c, q_class_title c, q_class_name c] \<and>
             \<not> blank_text s)) \<and>
     (price_of c \<noteq> [] \<longleftrightarrow> (\<exists>s. priceEl_text c = Some s \<and> \<not> blank_text s)) \<and>
     (\<not> truthy (title_of c) \<and> price_of c = [] \<longrightarrow>
        visit cd (results, seen) = (results, insert u seen)) \<and>
     (truthy (title_of c) \<and> price_of c = [] \<longrightarrow>
        (\<exists>t. title_of c = Some t \<and> t \<noteq> [] \<and>
           visit cd (results, seen) =
             (results @
                [\<lparr>id_no = length results + 1, title = t, price = ''N/A'',
                  image = image_of c, url = u\<rparr>],
              insert u seen))) \<and>
     (\<not> truthy (title_of c) \<and> price_of c \<noteq> [] \<longrightarrow>
        visit cd (results, seen) =
          (results @
             [\<lparr>id_no = length results + 1, title = ''N/A'', price = price_of c,
               image = image_of c, url = u\<rparr>],
           insert u seen))"
proof -
  have v: "visit cd (results, seen) =
      (if emits cd then results @ [entry cd (length results + 1) u] else results, insert u seen)"
    using assms(1,2) by (simp add: visit_cases)
  have neither: "visit cd (results, seen) = (results, insert u seen)"
    if "\<not> truthy (title_of c)" "price_of c = []"
    using that v assms(3) by (simp add: emits_def)
  have title_only: "\<exists>t. title_of c = Some t \<and> t \<noteq> [] \<and>
      visit cd (results, seen) =
        (results @
           [\<lparr>id_no = length results + 1, title = t, price = ''N/A'',
             image = image_of c, url = u\<rparr>],
         insert u seen)"
    if "truthy (title_of c)" "price_of c = []"
    using that v assms(3) truthy_or_str [OF that(1), of "''N/A''"]
    by (auto simp: emits_def entry_def falsy_or_str truthy_def)
  have price_only: "visit cd (results, seen) =
      (results @
         [\<lparr>id_no = length results + 1, title = ''N/A'', price = price_of c,
           image = image_of c, url = u\<rparr>],
       insert u seen)"
    if "\<not> truthy (title_of c)" "price_of c \<noteq> []"
    using that v assms(3) by (simp add: emits_def entry_def falsy_or_str or_str_Some)
  show ?thesis
    using truthy_title_iff [of c] price_of_Nil_iff [of c] neither title_only price_only
    by blast
qed

theorem sentinel_rule_witness:
  "visit (picture_link kettle_url) ([], {}) = ([], {kettle_url}) \<and>
   visit (titled_link kettle_url ''Kettle'') ([], {}) =
     ([\<lparr>id_no = 1, title = ''Kettle'', price = ''N/A'', image = [], url = kettle_url\<rparr>],
      {kettle_url}) \<and>
   visit (priced_link kettle_url ''D 99  D 120'') ([], {}) =
     ([\<lparr>id_no = 1, title = ''N/A'', price = ''AED 99'', image = [], url = kettle_url\<rparr>],
      {kettle_url})"
  using sentinel_rule [OF resolved_samples(1), of "{}" _ "[]", OF _ refl]
    sentinel_rule [OF resolved_samples(2), of "{}" _ "[]", OF _ refl]
    sentinel_rule [OF resolved_samples(3), of "{}" _ "[]", OF _ refl]
  by (simp add: sample_fields truthy_def)

text \<open>
  C5 as stated fails when an earlier price lookup finds an element without text: \<open>priceEl\<close>
  is the first element found, so the price of the later element is never read. The card
  below has no title and a price heuristic that yields \<open>D 5\<close>, which alone would be
  normalised to \<open>AED 5\<close>; the loop pushes no record for it.
\<close>

theorem blank_price_element_shadows:
  "resolved (shadowed_price_link kettle_url) = Some kettle_url \<and>
   title_of (container_of (shadowed_price_link kettle_url)) = None \<and>
   q_testid_price (container_of (shadowed_price_link kettle_url)) = Some [] \<and>
   q_class_price (container_of (shadowed_price_link kettle_url)) = Some ''D 5'' \<and>
   normalize_price (collapsed_price (Some ''D 5'')) = ''AED 5'' \<and>
   price_of (container_of (shadowed_price_link kettle_url)) = [] \<and>
   visit (shadowed_price_link kettle_url) ([], {}) = ([], {kettle_url})"
  by code_simp

section \<open>Price normalisation\<close>

lemma amount_char_solid: "amount_char c \<Longrightarrow> \<not> is_space c \<and> c \<noteq> CHR ''D''"
  by (auto simp: amount_char_def is_space_def Let_def)

lemma numeric_solid: "numeric a \<Longrightarrow> \<forall>c\<in>set a. \<not> is_space c"
  by (simp add: numeric_def list_all_iff amount_char_solid)

lemma numeric_Cons: "numeric a \<Longrightarrow> \<exists>c cs. a = c # cs \<and> \<not> is_space c \<and> c \<noteq> CHR ''D''"
  by (cases a) (simp_all add: numeric_def amount_char_solid)

lemma numeric_last: "numeric a \<Longrightarrow> a = butlast a @ [last a] \<and> \<not> is_space (last a)"
  using numeric_solid [of a] by (simp add: numeric_def)

lemma dropWhile_blank_append:
  "blank_text ws \<Longrightarrow> s = [] \<or> \<not> is_space (hd s) \<Longrightarrow> dropWhile is_space (ws @ s) = s"
  by (cases s) (auto simp: blank_text_def list_all_iff)

lemma collapse_ws_solid:
  "\<forall>c\<in>set x. \<not> is_space c \<Longrightarrow> collapse_ws (x @ s) = x @ collapse_ws s"
  by (induction x) simp_all

lemma collapse_ws_gap:
  "blank_text ws \<Longrightarrow> s = [] \<or> \<not> is_space (hd s) \<Longrightarrow>
   collapse_ws (ws @ s) = gap ws @ collapse_ws s"
proof (cases ws)
  case Nil
  then show ?thesis by (simp add: gap_def)
next
  case (Cons w ws')
  assume b: "blank_text ws" and s: "s = [] \<or> \<not> is_space (hd s)"
  have "blank_text ws'" "is_space w"
    using b Cons by (simp_all add: blank_text_def)
  then show ?thesis
    using Cons dropWhile_blank_append [OF \<open>blank_text ws'\<close> s] by (simp add: gap_def)
qed

lemma blank_gap: "blank_text (gap ws)"
  by (simp add: gap_def blank_text_def space_is_space)

lemma collapse_ws_blank: "blank_text ws \<Longrightarrow> collapse_ws ws = gap ws"
  using collapse_ws_gap [of ws "[]"] by simp

lemma dropWhile_keep:
  "\<not> P r \<Longrightarrow> dropWhile P (a @ r # b) = dropWhile P a @ r # b"
  by (induction a) simp_all

lemma trim_right_keep:
  "\<not> is_space r \<Longrightarrow>
   rev (dropWhile is_space (rev (x @ r # y))) = x @ r # rev (dropWhile is_space (rev y))"
  by (simp add: dropWhile_keep)

lemma trim_core:
  assumes "blank_text l" and "blank_text t" and "\<not> is_space c" and "\<not> is_space r"
  shows "trim (l @ c # x @ r # t) = c # x @ [r]" and "trim (l @ r # t) = [r]"
proof -
  have t: "dropWhile is_space (rev t) = []"
    using assms(2) by (simp add: blank_text_def list_all_iff)
  have l: "dropWhile is_space (l @ c # x @ r # t) = c # x @ r # t"
    "dropWhile is_space (l @ r # t) = r # t"
    using assms(1,3,4) by (simp_all add: dropWhile_blank_append)
  show "trim (l @ c # x @ r # t) = c # x @ [r]"
    unfolding trim_def l using trim_right_keep [OF assms(4), of "c # x" t] t by simp
  show "trim (l @ r # t) = [r]"
    unfolding trim_def l using trim_right_keep [OF assms(4), of "[]" t] t by simp
qed

lemma split_head_solid:
  "\<forall>c\<in>set x. \<not> is_space c \<Longrightarrow> split_head (x @ s) = x @ split_head s"
  by (induction x) (simp_all add: sep_here_def)

lemma split_head_gap:
  "\<not> is_space c \<Longrightarrow> c \<noteq> CHR ''D'' \<Longrightarrow> split_head (gap ws @ c # s) = gap ws @ split_head (c # s)"
  by (simp add: gap_def sep_here_def space_is_space split: list.splits)

lemma split_head_sep: "split_head ('' D '' @ s) = []"
  by (simp add: sep_here_def space_is_space D_solid)

lemma replace_marker_D:
  "\<not> is_space c \<Longrightarrow> replace_marker (''D'' @ gap ws @ c # cs) = ''AED '' @ c # cs"
  by (simp add: replace_marker_def gap_def space_is_space)

lemma collapsed_marked:
  assumes "numeric a" and "blank_text lead" and "blank_text ws1"
  shows "collapse_ws (lead @ ''D'' @ ws1 @ a @ s) =
     gap lead @ ''D'' @ gap ws1 @ a @ collapse_ws s"
proof -
  obtain c cs where a: "a = c # cs" "\<not> is_space c"
    using numeric_Cons [OF assms(1)] by blast
  have "collapse_ws (a @ s) = a @ collapse_ws s"
    by (rule collapse_ws_solid) (rule numeric_solid [OF assms(1)])
  then have "collapse_ws (ws1 @ a @ s) = gap ws1 @ a @ collapse_ws s"
    using collapse_ws_gap [OF assms(3), of "a @ s"] a by simp
  then have "collapse_ws (''D'' @ ws1 @ a @ s) = ''D'' @ gap ws1 @ a @ collapse_ws s"
    using D_solid by simp
  then show ?thesis
    using collapse_ws_gap [OF assms(2), of "''D'' @ ws1 @ a @ s"] D_solid by simp
qed

lemma split_head_marked:
  assumes "numeric a"
  shows "split_head (''D'' @ gap ws1 @ a @ s) = ''D'' @ gap ws1 @ a @ split_head s"
proof -
  obtain c cs where a: "a = c # cs" "\<not> is_space c" "c \<noteq> CHR ''D''"
    using numeric_Cons [OF assms] by blast
  have "split_head (a @ s) = a @ split_head s"
    by (rule split_head_solid) (rule numeric_solid [OF assms])
  then have "split_head (gap ws1 @ a @ s) = gap ws1 @ a @ split_head s"
    using split_head_gap [OF a(2,3), of ws1 "cs @ s"] a(1) by simp
  then show ?thesis
    using D_solid by (simp add: sep_here_def)
qed

lemma normalize_marked:
  assumes "numeric a"
  shows "normalize_price (''D'' @ gap ws1 @ a) = ''AED '' @ a"
    and "normalize_price (''D'' @ gap ws1 @ a @ '' D '' @ s) = ''AED '' @ a"
proof -
  obtain c cs where a: "a = c # cs" "\<not> is_space c"
    using numeric_Cons [OF assms] by blast
  have r: "replace_marker (''D'' @ gap ws1 @ a) = ''AED '' @ a"
    using replace_marker_D [OF a(2), of ws1 cs] a(1) by simp
  have "split_head (''D'' @ gap ws1 @ a) = ''D'' @ gap ws1 @ a"
    using split_head_marked [OF assms, of ws1 "[]"] by simp
  then show "normalize_price (''D'' @ gap ws1 @ a) = ''AED '' @ a"
    unfolding normalize_price_def using r by (simp add: or_str_Some)
  have "split_head (''D'' @ gap ws1 @ a @ '' D '' @ s) = ''D'' @ gap ws1 @ a"
    using split_head_marked [OF assms, of ws1 "'' D '' @ s"] split_head_sep [of s] by simp
  then show "normalize_price (''D'' @ gap ws1 @ a @ '' D '' @ s) = ''AED '' @ a"
    unfolding normalize_price_def using r by (simp add: or_str_Some)
qed

lemma price_marked_alone:
  assumes "numeric a" and "blank_text lead" and "blank_text ws1" and "blank_text trail"
  shows "normalize_price (collapsed_price (Some (lead @ ''D'' @ ws1 @ a @ trail))) = ''AED '' @ a"
proof -
  have c: "collapse_ws (lead @ ''D'' @ ws1 @ a @ trail) =
      gap lead @ ''D'' @ gap ws1 @ a @ gap trail"
    using collapsed_marked [OF assms(1-3), of trail] collapse_ws_blank [OF assms(4)]
    by simp
  have "trim (gap lead @ CHR ''D'' # (gap ws1 @ butlast a) @ last a # gap trail) =
      CHR ''D'' # (gap ws1 @ butlast a) @ [last a]"
    using numeric_last [OF assms(1)] by (intro trim_core(1) blank_gap D_solid) simp
  then have "trim (gap lead @ ''D'' @ gap ws1 @ a @ gap trail) = ''D'' @ gap ws1 @ a"
    using numeric_last [OF assms(1)]
    by (metis append_Cons append_Nil append_assoc)
  then have "collapsed_price (Some (lead @ ''D'' @ ws1 @ a @ trail)) = ''D'' @ gap ws1 @ a"
    using c by (simp add: collapsed_price_def or_str_Some_Nil)
  then show ?thesis
    using normalize_marked(1) [OF assms(1), of ws1] by simp
qed

lemma price_marked_first:
  assumes "numeric a" and "blank_text lead" and "blank_text ws1"
    and "blank_text ws2" and "ws2 \<noteq> []" and "blank_text ws3" and "ws3 \<noteq> []"
    and "\<not> is_space r"
  shows "normalize_price
      (collapsed_price (Some (lead @ ''D'' @ ws1 @ a @ ws2 @ ''D'' @ ws3 @ r # rest))) =
     ''AED '' @ a"
proof -
  have "collapse_ws (ws3 @ r # rest) = '' '' @ r # collapse_ws rest"
    using collapse_ws_gap [OF assms(6), of "r # rest"] assms(7,8) by (simp add: gap_def)
  then have "collapse_ws (ws2 @ ''D'' @ ws3 @ r # rest) = '' D '' @ r # collapse_ws rest"
    using collapse_ws_gap [OF assms(4), of "''D'' @ ws3 @ r # rest"] assms(5) D_solid
    by (simp add: gap_def)
  then have c: "collapse_ws (lead @ ''D'' @ ws1 @ a @ ws2 @ ''D'' @ ws3 @ r # rest) =
      gap lead @ ''D'' @ gap ws1 @ a @ '' D '' @ r # collapse_ws rest"
    using collapsed_marked [OF assms(1-3), of "ws2 @ ''D'' @ ws3 @ r # rest"] by simp
  have "dropWhile is_space (gap lead @ ''D'' @ gap ws1 @ a @ '' D '' @ r # collapse_ws rest) =
      ''D'' @ gap ws1 @ a @ '' D '' @ r # collapse_ws rest"
    using dropWhile_blank_append [OF blank_gap, of _ lead] D_solid by simp
  then have "trim (gap lead @ ''D'' @ gap ws1 @ a @ '' D '' @ r # collapse_ws rest) =
      ''D'' @ gap ws1 @ a @ '' D '' @ r # rev (dropWhile is_space (rev (collapse_ws rest)))"
    unfolding trim_def
    using trim_right_keep [OF assms(8), of "''D'' @ gap ws1 @ a @ '' D ''" "collapse_ws rest"]
    by simp
  then have "collapsed_price (Some (lead @ ''D'' @ ws1 @ a @ ws2 @ ''D'' @ ws3 @ r # rest)) =
      ''D'' @ gap ws1 @ a @ '' D '' @ r # rev (dropWhile is_space (rev (collapse_ws rest)))"
    using c by (simp add: collapsed_price_def or_str_Some_Nil)
  then show ?thesis
    using normalize_marked(2) [OF assms(1), of ws1] by simp
qed

lemma price_amount_first:
  assumes "numeric a" and "blank_text lead" and "blank_text ws" and "ws \<noteq> []"
    and "blank_text trail"
  shows "normalize_price (collapsed_price (Some (lead @ a @ ws @ ''D'' @ trail))) = a @ '' D''"
proof -
  obtain c cs where a: "a = c # cs" "\<not> is_space c" "c \<noteq> CHR ''D''"
    using numeric_Cons [OF assms(1)] by blast
  have solid: "\<forall>c\<in>set a. \<not> is_space c"
    by (rule numeric_solid [OF assms(1)])
  have "collapse_ws (''D'' @ trail) = ''D'' @ gap trail"
    using collapse_ws_blank [OF assms(5)] D_solid by simp
  then have "collapse_ws (ws @ ''D'' @ trail) = '' D'' @ gap trail"
    using collapse_ws_gap [OF assms(3), of "''D'' @ trail"] assms(4) D_solid
    by (simp add: gap_def)
  then have "collapse_ws (a @ ws @ ''D'' @ trail) = a @ '' D'' @ gap trail"
    using collapse_ws_solid [OF solid, of "ws @ ''D'' @ trail"] by simp
  then have c: "collapse_ws (lead @ a @ ws @ ''D'' @ trail) = gap lead @ a @ '' D'' @ gap trail"
    using collapse_ws_gap [OF assms(2), of "a @ ws @ ''D'' @ trail"] a by simp
  have "trim (gap lead @ c # (cs @ '' '') @ CHR ''D'' # gap trail) = c # (cs @ '' '') @ ''D''"
    by (intro trim_core(1) blank_gap a D_solid)
  then have p: "collapsed_price (Some (lead @ a @ ws @ ''D'' @ trail)) = a @ '' D''"
    using c by (simp add: collapsed_price_def or_str_Some_Nil a)
  have sh: "split_head (a @ '' D'') = a @ '' D''"
    using split_head_solid [OF solid, of "'' D''"] by (simp add: sep_here_def D_solid)
  have rm: "replace_marker (a @ '' D'') = a @ '' D''"
    using a by (simp add: replace_marker_def)
  have "normalize_price (a @ '' D'') = a @ '' D''"
    unfolding normalize_price_def sh rm by (simp add: or_str_Some)
  then show ?thesis
    by (simp only: p)
qed

text \<open>
  C7, as amended. The marker that the normalisation replaces is a leading \<open>D\<close>. For a raw
  text made of optional whitespace, \<open>D\<close>, optional whitespace and a numeric amount \<open>a\<close>,
  followed either by whitespace only or by a separator (whitespace, \<open>D\<close>, whitespace) and
  further text, the result is \<open>AED\<close>, a space and \<open>a\<close>. A raw text made of the amount,
  whitespace and \<open>D\<close> is returned whitespace-collapsed and trimmed, without a prefix.
\<close>

theorem price_normalization:
  assumes "numeric a" and "blank_text lead" and "blank_text ws1" and "blank_text trail"
    and "blank_text ws2" and "ws2 \<noteq> []" and "blank_text ws3" and "ws3 \<noteq> []"
    and "\<not> is_space r"
  shows
    "normalize_price (collapsed_price (Some (lead @ ''D'' @ ws1 @ a @ trail))) = ''AED '' @ a \<and>
     normalize_price
       (collapsed_price (Some (lead @ ''D'' @ ws1 @ a @ ws2 @ ''D'' @ ws3 @ r # rest))) =
       ''AED '' @ a \<and>
     normalize_price (collapsed_price (Some (lead @ a @ ws2 @ ''D'' @ trail))) = a @ '' D''"
  using price_marked_alone [OF assms(1-4)] price_marked_first [OF assms(1-3,5-9)]
    price_amount_first [OF assms(1,2,5,6,4)]
  by simp

theorem price_normalization_witness:
  "normalize_price (collapsed_price (Some '' D 1,299 '')) = ''AED 1,299'' \<and>
   normalize_price (collapsed_price (Some '' D 1,299  D 1,599'')) = ''AED 1,299'' \<and>
   normalize_price (collapsed_price (Some '' 1,299  D '')) = ''1,299 D''"
proof -
  have n: "numeric ''1,299''"
    by (simp add: numeric_def amount_char_def)
  have b: "blank_text '' ''" "blank_text ''  ''"
    by (simp_all add: blank_text_def is_space_def)
  have r: "\<not> is_space CHR ''1''"
    by (simp add: is_space_def)
  show ?thesis
    using price_normalization [OF n b(1) b(1) b(1) b(2) _ b(1) _ r, of "'',599''"]
    by simp
qed

text \<open>
  C7 as stated fails: a text that begins with the amount gets no \<open>AED\<close> prefix. With the
  marker after the amount the marker stays; with a separator and more text after the amount
  only the amount is left.
\<close>

theorem amount_first_not_prefixed:
  "normalize_price (collapsed_price (Some ''1,299 D'')) = ''1,299 D'' \<and>
   normalize_price (collapsed_price (Some ''1,299 D 1,599'')) = ''1,299''"
  by code_simp

section \<open>The cache test and the two product endpoints\<close>

lemma cache_valid_iff:
  "cache_valid now s \<longleftrightarrow>
     cachedProducts s \<noteq> [] \<and> (\<exists>T. lastScrapeTime s = Some T \<and> T \<noteq> 0 \<and> now - T < 300000)"
  by (auto simp: cache_valid_def CACHE_DURATION_def split: option.splits)

lemma cache_valid_scrapes [simp]: "cache_valid n (s\<lparr>scrapes := k\<rparr>) = cache_valid n s"
  by (simp add: cache_valid_def)

lemma get_products_hit:
  "cache_valid now s \<Longrightarrow>
   get_products now r t s =
     (\<lparr>status = 200,
       body = ProductsJson (length (cachedProducts s)) (Some True) (cachedProducts s)\<rparr>, s)"
  by (simp add: get_products_def products_arrive_def serve_def)

lemma get_products_miss_ok:
  "\<not> cache_valid now s \<Longrightarrow>
   get_products now (Rendered pg) t s =
     (\<lparr>status = 200,
       body = ProductsJson (length (evaluate_products pg)) (Some False) (evaluate_products pg)\<rparr>,
      s\<lparr>cachedProducts := evaluate_products pg, lastScrapeTime := Some now,
        scrapes := scrapes s + 1\<rparr>)"
  by (simp add: get_products_def products_arrive_def serve_def resume_def scrapeProducts_def)

lemma get_products_miss_fail:
  "\<not> cache_valid now s \<Longrightarrow>
   get_products now (RenderError msg) t s =
     (\<lparr>status = 500, body = ErrorJson msg\<rparr>, s\<lparr>scrapes := scrapes s + 1\<rparr>)"
  by (simp add: get_products_def products_arrive_def serve_def resume_def scrapeProducts_def)

lemma get_products_miss_scrapes:
  "\<not> cache_valid now s \<Longrightarrow> scrapes (snd (get_products now r t s)) = scrapes s + 1"
  by (cases r) (simp_all add: get_products_miss_ok get_products_miss_fail)

lemma get_refresh_ok:
  "get_refresh (Rendered pg) t s =
     (\<lparr>status = 200,
       body = ProductsJson (length (evaluate_products pg)) None (evaluate_products pg)\<rparr>,
      s\<lparr>cachedProducts := evaluate_products pg, lastScrapeTime := Some t,
        scrapes := scrapes s + 1\<rparr>)"
  by (simp add: get_refresh_def refresh_arrive_def serve_def resume_def scrapeProducts_def)

lemma get_refresh_fail:
  "get_refresh (RenderError msg) t s =
     (\<lparr>status = 500, body = ErrorJson msg\<rparr>, s\<lparr>scrapes := scrapes s + 1\<rparr>)"
  by (simp add: get_refresh_def refresh_arrive_def serve_def resume_def scrapeProducts_def)

lemma evaluate_pictures_only: "evaluate_products pictures_only = []"
  by code_simp

text \<open>
  C1, as amended. \<open>GET /api/products\<close> answers from the cache exactly when the stored list
  is not empty, \<open>lastScrapeTime\<close> is set (and not 0) and \<open>now - lastScrapeTime\<close> is below
  300000 ms; it then returns the stored records with \<open>cached = true\<close> and calls no scrape.
  Otherwise it calls \<open>scrapeProducts\<close> once, and when that succeeds it stores the fresh
  records with the arrival time and returns them with \<open>cached = false\<close>. With a non-empty
  list stamped \<open>T0\<close>, a request at \<open>T0\<close> + 4 min 59 s is answered from the cache and one at
  \<open>T0\<close> + 5 min 01 s is not.
\<close>

theorem products_cache_policy:
  "(cache_valid now s \<longleftrightarrow>
      cachedProducts s \<noteq> [] \<and>
      (\<exists>T. lastScrapeTime s = Some T \<and> T \<noteq> 0 \<and> now - T < 300000)) \<and>
   (cache_valid now s \<longrightarrow>
      get_products now r t s =
        (\<lparr>status = 200,
          body = ProductsJson (length (cachedProducts s)) (Some True) (cachedProducts s)\<rparr>, s)) \<and>
   (\<not> cache_valid now s \<longrightarrow>
      scrapes (snd (get_products now r t s)) = scrapes s + 1 \<and>
      get_products now (Rendered pg) t s =
        (\<lparr>status = 200,
          body = ProductsJson (length (evaluate_products pg)) (Some False)
                   (evaluate_products pg)\<rparr>,
         s\<lparr>cachedProducts := evaluate_products pg, lastScrapeTime := Some now,
           scrapes := scrapes s + 1\<rparr>)) \<and>
   (cachedProducts s \<noteq> [] \<and> lastScrapeTime s = Some T0 \<and> T0 \<noteq> 0 \<longrightarrow>
      cache_valid (T0 + 299000) s \<and> \<not> cache_valid (T0 + 301000) s)"
proof -
  have window: "cache_valid (T0 + 299000) s \<and> \<not> cache_valid (T0 + 301000) s"
    if "cachedProducts s \<noteq> []" "lastScrapeTime s = Some T0" "T0 \<noteq> 0"
    using that by (simp add: cache_valid_iff)
  show ?thesis
    using cache_valid_iff [of now s] get_products_hit [of now s r t]
      get_products_miss_scrapes [of now s r t] get_products_miss_ok [of now s pg t] window
    by blast
qed

theorem products_cache_policy_witness:
  "get_products 1700000299000 (RenderError ''offline'') 1700000299000 stocked =
     (\<lparr>status = 200, body = ProductsJson 1 (Some True) [kettle]\<rparr>, stocked) \<and>
   get_products 1700000301000 (Rendered pictures_only) 1700000330000 stocked =
     (\<lparr>status = 200, body = ProductsJson 0 (Some False) []\<rparr>,
      \<lparr>cachedProducts = [], lastScrapeTime = Some 1700000301000, scrapes = 2,
        in_flight = 0\<rparr>)"
proof -
  have entry:
    "cachedProducts stocked \<noteq> [] \<and> lastScrapeTime stocked = Some 1700000000000 \<and>
     (1700000000000 :: int) \<noteq> 0"
    by (simp add: stocked_def)
  have edge: "cache_valid 1700000299000 stocked" "\<not> cache_valid 1700000301000 stocked"
    using products_cache_policy [of _ stocked _ _ _ 1700000000000] entry by simp_all
  show ?thesis
    using products_cache_policy
        [of 1700000299000 stocked "RenderError ''offline''" 1700000299000]
      products_cache_policy [of 1700000301000 stocked _ 1700000330000 pictures_only] edge
    by (simp add: stocked_def evaluate_pictures_only)
qed

text \<open>
  C1 as stated fails for an entry with an empty list. A scrape of a page with three
  picture links succeeds with no record; the entry then has a timestamp, but a request one
  second later scrapes again and answers \<open>cached = false\<close>.
\<close>

theorem products_empty_entry_rescraped:
  "get_refresh (Rendered pictures_only) 1700000000000 initial =
     (\<lparr>status = 200, body = ProductsJson 0 None []\<rparr>,
      \<lparr>cachedProducts = [], lastScrapeTime = Some 1700000000000, scrapes = 1,
        in_flight = 0\<rparr>) \<and>
   (1700000001000 :: int) - 1700000000000 < CACHE_DURATION \<and>
   get_products 1700000001000 (Rendered pictures_only) 1700000031000
       \<lparr>cachedProducts = [], lastScrapeTime = Some 1700000000000, scrapes = 1,
         in_flight = 0\<rparr> =
     (\<lparr>status = 200, body = ProductsJson 0 (Some False) []\<rparr>,
      \<lparr>cachedProducts = [], lastScrapeTime = Some 1700000001000, scrapes = 2,
        in_flight = 0\<rparr>)"
  by (simp add: get_refresh_ok get_products_miss_ok cache_valid_def initial_def
      evaluate_pictures_only CACHE_DURATION_def)

lemma resume_failure:
  "resume h (Inl msg) t s =
     (\<lparr>status = 500, body = ErrorJson msg\<rparr>, s\<lparr>in_flight := in_flight s - 1\<rparr>)"
  by (simp add: resume_def)

lemma get_products_response_scrapes [simp]:
  "fst (get_products n r t (s\<lparr>scrapes := k\<rparr>)) = fst (get_products n r t s)"
  by (cases r)
    (simp_all add: get_products_def products_arrive_def serve_def resume_def scrapeProducts_def)

text \<open>
  C2. A scrape that throws leaves \<open>cachedProducts\<close> and \<open>lastScrapeTime\<close> as they were, and
  the handler answers 500 with \<open>{success: false, error: message}\<close>: for a suspended handler
  of either endpoint in any state, for a refresh served alone, and for \<open>GET /api/products\<close>
  served alone on a cache miss. A later \<open>GET /api/products\<close> is answered as it would have
  been without the failed attempt, so the earlier records are still served.
\<close>

theorem failed_scrape_keeps_cache:
  "fst (resume h (Inl msg) t s) = \<lparr>status = 500, body = ErrorJson msg\<rparr> \<and>
   cachedProducts (snd (resume h (Inl msg) t s)) = cachedProducts s \<and>
   lastScrapeTime (snd (resume h (Inl msg) t s)) = lastScrapeTime s \<and>
   get_refresh (RenderError msg) t s =
     (\<lparr>status = 500, body = ErrorJson msg\<rparr>, s\<lparr>scrapes := scrapes s + 1\<rparr>) \<and>
   fst (get_products n r' t' (snd (get_refresh (RenderError msg) t s))) =
     fst (get_products n r' t' s) \<and>
   (\<not> cache_valid now s \<longrightarrow>
      get_products now (RenderError msg) t s =
        (\<lparr>status = 500, body = ErrorJson msg\<rparr>, s\<lparr>scrapes := scrapes s + 1\<rparr>) \<and>
      fst (get_products n r' t' (snd (get_products now (RenderError msg) t s))) =
        fst (get_products n r' t' s))"
  by (simp add: resume_failure get_refresh_fail get_products_miss_fail)

theorem failed_scrape_keeps_cache_witness:
  "get_products 1700000301000 (RenderError ''Navigation timeout'') 1700000361000 stocked =
     (\<lparr>status = 500, body = ErrorJson ''Navigation timeout''\<rparr>,
      \<lparr>cachedProducts = [kettle], lastScrapeTime = Some 1700000000000, scrapes = 2,
        in_flight = 0\<rparr>)"
proof -
  have miss: "\<not> cache_valid 1700000301000 stocked"
    by (simp add: cache_valid_iff stocked_def)
  show ?thesis
    using failed_scrape_keeps_cache
        [of _ "''Navigation timeout''" 1700000361000 stocked _ _ _ 1700000301000] miss
    by (simp add: stocked_def)
qed

text \<open>
  C6. In every state \<open>GET /api/products/refresh\<close> goes straight to \<open>scrapeProducts\<close>, whatever
  the cache holds; when the scrape succeeds the fresh records and the time at that moment
  replace the cache entry, and the answer is a success object without a \<open>cached\<close> field.
\<close>

theorem refresh_bypasses_cache:
  "fst (refresh_arrive s) = Suspended RefreshHandler \<and>
   scrapes (snd (get_refresh r t s)) = scrapes s + 1 \<and>
   get_refresh (Rendered pg) t s =
     (\<lparr>status = 200,
       body = ProductsJson (length (evaluate_products pg)) None (evaluate_products pg)\<rparr>,
      s\<lparr>cachedProducts := evaluate_products pg, lastScrapeTime := Some t,
        scrapes := scrapes s + 1\<rparr>)"
  by (cases r) (simp_all add: get_refresh_ok get_refresh_fail refresh_arrive_def)

theorem refresh_bypasses_cache_witness:
  "cache_valid 1700000001000 stocked \<and>
   get_refresh (Rendered pictures_only) 1700000001000 stocked =
     (\<lparr>status = 200, body = ProductsJson 0 None []\<rparr>,
      \<lparr>cachedProducts = [], lastScrapeTime = Some 1700000001000, scrapes = 2,
        in_flight = 0\<rparr>)"
  using refresh_bypasses_cache [of stocked _ 1700000001000 pictures_only]
  by (simp add: stocked_def evaluate_pictures_only cache_valid_iff)

text \<open>
  C9. An answer of \<open>GET /api/products\<close> with \<open>cached = true\<close> never has an empty product
  list; and while the stored list is empty, every \<open>GET /api/products\<close> is suspended on a new
  scrape, whatever \<open>lastScrapeTime\<close> and the time of the request are.
\<close>

theorem cached_answers_are_nonempty:
  "(body (fst (get_products now r t s)) = ProductsJson k (Some True) ps \<longrightarrow> ps \<noteq> []) \<and>
   (cachedProducts s = [] \<longrightarrow>
      fst (products_arrive now s) = Suspended (ProductsHandler now) \<and>
      scrapes (snd (get_products now r t s)) = scrapes s + 1)"
proof (cases "cache_valid now s")
  case True
  then show ?thesis
    by (auto simp: get_products_hit cache_valid_iff)
next
  case False
  then show ?thesis
    by (cases r)
      (simp_all add: get_products_miss_ok get_products_miss_fail products_arrive_def)
qed

theorem cached_answers_are_nonempty_witness:
  "fst (products_arrive 1700000001000
          \<lparr>cachedProducts = [], lastScrapeTime = Some 1700000000000, scrapes = 1,
            in_flight = 0\<rparr>) = Suspended (ProductsHandler 1700000001000) \<and>
   scrapes (snd (get_products 1700000001000 (Rendered pictures_only) 1700000031000
          \<lparr>cachedProducts = [], lastScrapeTime = Some 1700000000000, scrapes = 1,
            in_flight = 0\<rparr>)) = 2 \<and>
   body (fst (get_products 1700000001000 (RenderError ''offline'') 1700000001000 stocked)) =
     ProductsJson 1 (Some True) [kettle] \<and>
   [kettle] \<noteq> []"
proof -
  have hit:
    "body (fst (get_products 1700000001000 (RenderError ''offline'') 1700000001000 stocked)) =
       ProductsJson 1 (Some True) [kettle]"
    by (simp add: get_products_hit cache_valid_iff stocked_def)
  show ?thesis
    using cached_answers_are_nonempty
        [of 1700000001000 "Rendered pictures_only" 1700000031000
          "\<lparr>cachedProducts = [], lastScrapeTime = Some 1700000000000, scrapes = 1,
            in_flight = 0\<rparr>"]
      cached_answers_are_nonempty
        [of 1700000001000 "RenderError ''offline''" 1700000001000 stocked 1 "[kettle]"] hit
    by simp
qed

text \<open>
  C10. On a cache miss \<open>GET /api/products\<close> stamps the entry with the time of arrival, the
  refresh with the time at which its scrape returns. For a scrape that takes \<open>d\<close> ms and
  returns at \<open>now + d\<close>, the entry written by \<open>GET /api/products\<close> stops being valid at
  \<open>now + d + CACHE_DURATION - d\<close>, the one written by a refresh returning at the same moment
  at \<open>now + d + CACHE_DURATION\<close>.
\<close>

theorem endpoints_stamp_differently:
  assumes "\<not> cache_valid now s" and "0 < now" and "0 \<le> d"
  shows
    "lastScrapeTime (snd (get_products now (Rendered pg) (now + d) s)) = Some now \<and>
     lastScrapeTime (snd (get_refresh (Rendered pg) (now + d) s')) = Some (now + d) \<and>
     (cache_valid n (snd (get_products now (Rendered pg) (now + d) s)) \<longleftrightarrow>
        evaluate_products pg \<noteq> [] \<and> n < (now + d) + CACHE_DURATION - d) \<and>
     (cache_valid n (snd (get_refresh (Rendered pg) (now + d) s')) \<longleftrightarrow>
        evaluate_products pg \<noteq> [] \<and> n < (now + d) + CACHE_DURATION)"
  using assms
  by (auto simp: get_products_miss_ok get_refresh_ok cache_valid_def)

theorem endpoints_stamp_differently_witness:
  "lastScrapeTime (snd (get_products 1700000000000 (Rendered pictures_only)
      (1700000000000 + 30000) initial)) = Some 1700000000000 \<and>
   lastScrapeTime (snd (get_refresh (Rendered pictures_only)
      (1700000000000 + 30000) initial)) = Some (1700000000000 + 30000)"
proof -
  have miss: "\<not> cache_valid 1700000000000 initial"
    by (simp add: cache_valid_iff initial_def)
  show ?thesis
    using endpoints_stamp_differently
        [OF miss, of 30000 pictures_only initial 1700000000000]
    by simp
qed

text \<open>
  C3, as amended. The handlers have no guard against a scrape in flight: whatever the
  number of scrapes in flight, a refresh that arrives, and a \<open>GET /api/products\<close> that
  arrives and misses the cache, is suspended on a scrape of its own, which makes one more
  in flight. Every scrape that returns overwrites the cache, so of two overlapping scrapes
  the one that returns last decides what the cache holds.
\<close>

theorem scrapes_overlap:
  "fst (refresh_arrive s) = Suspended RefreshHandler \<and>
   in_flight (snd (refresh_arrive s)) = in_flight s + 1 \<and>
   (\<not> cache_valid now s \<longrightarrow>
      fst (products_arrive now s) = Suspended (ProductsHandler now) \<and>
      in_flight (snd (products_arrive now s)) = in_flight s + 1) \<and>
   cachedProducts (snd (resume h2 (Inr b) t2 (snd (resume h1 (Inr a) t1 s)))) = b"
  by (cases h1; cases h2) (simp_all add: refresh_arrive_def products_arrive_def resume_def)

theorem scrapes_overlap_witness:
  "in_flight (snd (products_arrive 1700000301000 (stocked\<lparr>in_flight := 1\<rparr>))) = 2 \<and>
   in_flight (snd (refresh_arrive (stocked\<lparr>in_flight := 1\<rparr>))) = 2"
proof -
  have miss: "\<not> cache_valid 1700000301000 (stocked\<lparr>in_flight := 1\<rparr>)"
    by (simp add: cache_valid_iff stocked_def)
  show ?thesis
    using scrapes_overlap [of "stocked\<lparr>in_flight := 1\<rparr>" 1700000301000] miss
    by (simp add: stocked_def)
qed

text \<open>
  C3 as stated fails. \<open>GET /api/products\<close> arrives at a server that has just started and is
  suspended on its scrape; a refresh arrives before that scrape returns: two scrapes are
  in flight. The refresh's scrape returns first, the older one five seconds later and
  overwrites what the refresh had stored.
\<close>

theorem two_scrapes_in_flight:
  "in_flight (snd (refresh_arrive (snd (products_arrive 1700000000000 initial)))) = 2 \<and>
   cachedProducts
     (snd (resume RefreshHandler (Inr [kettle]) 1700000035000
       (snd (refresh_arrive (snd (products_arrive 1700000000000 initial)))))) = [kettle] \<and>
   cachedProducts
     (snd (resume (ProductsHandler 1700000000000) (Inr []) 1700000040000
       (snd (resume RefreshHandler (Inr [kettle]) 1700000035000
         (snd (refresh_arrive (snd (products_arrive 1700000000000 initial)))))))) = []"
  by (simp add: refresh_arrive_def products_arrive_def resume_def initial_def cache_valid_def)

section \<open>The statuses of the image proxy\<close>

text \<open>
  C8, as amended. \<open>GET /api/image-proxy\<close> answers 400 without calling \<open>fetch\<close> exactly when
  the \<open>url\<close> parameter is absent or the empty string; and when \<open>fetch\<close> resolves to a
  response whose status is outside 200 to 299, the handler answers with that status.
\<close>

theorem image_proxy_statuses:
  "(image_proxy q fetch = (ProxyError 400 ''Missing url parameter'', []) \<longleftrightarrow>
      q = None \<or> q = Some []) \<and>
   (snd (image_proxy q fetch) = [] \<longleftrightarrow> q = None \<or> q = Some []) \<and>
   (q = Some u \<and> u \<noteq> [] \<and> fetch u = FetchResponse up \<and> \<not> ok up \<longrightarrow>
      image_proxy q fetch = (ProxyError (up_status up) ''Failed to fetch image'', [u]))"
  by (auto simp: image_proxy_def truthy_def split: option.splits fetched.splits)

theorem image_proxy_statuses_witness:
  "image_proxy (Some ''https://cdn.example/p.jpg'') gone =
     (ProxyError 404 ''Failed to fetch image'', [''https://cdn.example/p.jpg''])"
  using image_proxy_statuses [of "Some ''https://cdn.example/p.jpg''" gone
      "''https://cdn.example/p.jpg''"
      "\<lparr>up_status = 404, up_content_type = None, up_bytes = None\<rparr>"]
  by (simp add: gone_def ok_def)

text \<open>
  C8 as stated fails in its "only if": for \<open>GET /api/image-proxy?url=\<close> the parameter is
  present and empty, and the handler answers 400 without calling \<open>fetch\<close>.
\<close>

theorem image_proxy_empty_url:
  "image_proxy (Some []) offline = (ProxyError 400 ''Missing url parameter'', []) \<and>
   Some [] \<noteq> (None :: string option)"
  by (simp add: image_proxy_def truthy_def)

end
